theory Spec2Isabelle
  imports Main "HOL-Library.Word"
begin

text \<open>
  The joining workflow of a device: the client (\<open>addMember\<close>, \<open>sendJoinProof\<close>,
  \<open>sendModTrainProof\<close>, \<open>waitForMemberEvent\<close>, \<open>main\<close>) and the bridge from the ledger's
  events to the membership mirror and the event bus (\<open>processEvent\<close> and the callbacks of
  \<open>startBlockchainListeners\<close>, \<open>isAlreadyMember\<close>). Promises are awaited one after the
  other, so a function is modelled by what it has done when it returns or throws; the
  one place where \<open>main\<close> waits for the bridge is an outcome of its own.
\<close>

section \<open>JavaScript strings and numbers\<close>

text \<open>
  A JavaScript string is a sequence of UTF-16 code units. String literals of the source
  are ASCII and are written \<open>js ''...''\<close>.
\<close>

type_synonym code_unit = "16 word"
type_synonym js_string = "code_unit list"
type_synonym byte = "8 word"

definition js :: "string \<Rightarrow> js_string" where
  "js s = map (\<lambda>c. of_nat (of_char c)) s"

text \<open>\<open>bigint.prototype.toString()\<close> (radix 10): the decimal digits, most significant
  first, with a leading minus sign for a negative value.\<close>

definition digit :: "nat \<Rightarrow> code_unit" where
  "digit d = of_nat (48 + d)"

function nat_toString :: "nat \<Rightarrow> js_string" where
  "nat_toString n =
     (if n < 10 then [digit n] else nat_toString (n div 10) @ [digit (n mod 10)])"
  by pat_completeness auto
termination
  by (relation "measure id") auto

declare nat_toString.simps [simp del]

definition bigint_toString :: "int \<Rightarrow> js_string" where
  "bigint_toString i =
     (if i < 0 then js ''-'' @ nat_toString (nat (- i)) else nat_toString (nat i))"

text \<open>
  A JavaScript \<open>number\<close> is a double. The source only asks whether it is a safe integer
  and, if so, prints it. A double whose value is an integer is modelled by that value
  (\<open>-0\<close> is \<open>Integral 0\<close>); any other double (a fraction, \<open>NaN\<close>, an infinity) by the string
  that \<open>toString\<close> gives for it.
\<close>

datatype js_number = Integral int | NonIntegral js_string

definition MAX_SAFE_INTEGER :: int where
  "MAX_SAFE_INTEGER = 2 ^ 53 - 1"

fun isSafeInteger :: "js_number \<Rightarrow> bool" where
  "isSafeInteger (Integral i) = (\<bar>i\<bar> \<le> MAX_SAFE_INTEGER)"
| "isSafeInteger (NonIntegral s) = False"

text \<open>\<open>Number.prototype.toString()\<close>: an integer below \<open>10^21\<close> in absolute value, as every
  safe integer is, is printed with its decimal digits. (A larger one is printed with an
  exponent; the source never prints one.)\<close>

fun number_toString :: "js_number \<Rightarrow> js_string" where
  "number_toString (Integral i) = bigint_toString i"
| "number_toString (NonIntegral s) = s"

subsection \<open>\<open>JSON.stringify\<close> on an array of strings\<close>

definition is_high_surrogate :: "code_unit \<Rightarrow> bool" where
  "is_high_surrogate u = (0xD800 \<le> u \<and> u \<le> 0xDBFF)"

definition is_low_surrogate :: "code_unit \<Rightarrow> bool" where
  "is_low_surrogate u = (0xDC00 \<le> u \<and> u \<le> 0xDFFF)"

definition hex_digit :: "nat \<Rightarrow> code_unit" where
  "hex_digit d = (if d < 10 then of_nat (48 + d) else of_nat (87 + d))"

definition UnicodeEscape :: "code_unit \<Rightarrow> js_string" where
  "UnicodeEscape u =
     (let n = unat u in
      js [CHR 0x5C, CHR ''u''] @
      [hex_digit (n div 4096), hex_digit (n div 256 mod 16),
       hex_digit (n div 16 mod 16), hex_digit (n mod 16)])"

text \<open>One code unit that is not part of a surrogate pair, as \<open>QuoteJSONString\<close> writes it.\<close>

definition quote_unit :: "code_unit \<Rightarrow> js_string" where
  "quote_unit u =
     (if u = 0x08 then js [CHR 0x5C, CHR ''b'']
      else if u = 0x09 then js [CHR 0x5C, CHR ''t'']
      else if u = 0x0A then js [CHR 0x5C, CHR ''n'']
      else if u = 0x0C then js [CHR 0x5C, CHR ''f'']
      else if u = 0x0D then js [CHR 0x5C, CHR ''r'']
      else if u = 0x22 then js [CHR 0x5C, CHR 0x22]
      else if u = 0x5C then js [CHR 0x5C, CHR 0x5C]
      else if u < 0x20 \<or> is_high_surrogate u \<or> is_low_surrogate u then UnicodeEscape u
      else [u])"

fun quote_units :: "js_string \<Rightarrow> js_string" where
  "quote_units [] = []"
| "quote_units [u] = quote_unit u"
| "quote_units (u # l # us) =
     (if is_high_surrogate u \<and> is_low_surrogate l then u # l # quote_units us
      else quote_unit u @ quote_units (l # us))"

definition QuoteJSONString :: "js_string \<Rightarrow> js_string" where
  "QuoteJSONString s = js [CHR 0x22] @ quote_units s @ js [CHR 0x22]"

fun join_comma :: "js_string list \<Rightarrow> js_string" where
  "join_comma [] = []"
| "join_comma [s] = s"
| "join_comma (s # t # ss) = s @ js '','' @ join_comma (t # ss)"

definition JSON_stringify :: "js_string list \<Rightarrow> js_string" where
  "JSON_stringify xs = js ''['' @ join_comma (map QuoteJSONString xs) @ js '']''"

subsection \<open>\<open>TextEncoder.encode\<close>: UTF-8\<close>

definition utf8_code_point :: "nat \<Rightarrow> byte list" where
  "utf8_code_point cp =
     (if cp < 0x80 then [of_nat cp]
      else if cp < 0x800 then [of_nat (0xC0 + cp div 64), of_nat (0x80 + cp mod 64)]
      else if cp < 0x10000 then
        [of_nat (0xE0 + cp div 4096), of_nat (0x80 + cp div 64 mod 64), of_nat (0x80 + cp mod 64)]
      else
        [of_nat (0xF0 + cp div 262144), of_nat (0x80 + cp div 4096 mod 64),
         of_nat (0x80 + cp div 64 mod 64), of_nat (0x80 + cp mod 64)])"

text \<open>A code unit outside a surrogate pair: a lone surrogate becomes U+FFFD.\<close>

definition scalar_of_unit :: "code_unit \<Rightarrow> nat" where
  "scalar_of_unit u = (if is_high_surrogate u \<or> is_low_surrogate u then 0xFFFD else unat u)"

fun TextEncoder_encode :: "js_string \<Rightarrow> byte list" where
  "TextEncoder_encode [] = []"
| "TextEncoder_encode [u] = utf8_code_point (scalar_of_unit u)"
| "TextEncoder_encode (u # l # us) =
     (if is_high_surrogate u \<and> is_low_surrogate l
      then utf8_code_point (0x10000 + (unat u - 0xD800) * 0x400 + (unat l - 0xDC00))
             @ TextEncoder_encode us
      else utf8_code_point (scalar_of_unit u) @ TextEncoder_encode (l # us))"

section \<open>The proof-submission client\<close>

text \<open>
  A thrown \<open>Error\<close> is a value: \<open>Inl (Error msg)\<close>. Everything the client does to the
  outside (an HTTP request, a call of the proof generator, a console line) is recorded,
  in order, as an \<open>effect\<close>.
\<close>

datatype js_error = Error string

datatype identity = Identity int

record semaphore_proof =
  nullifier :: int
  points :: "int list"

text \<open>
  The group of \<open>@semaphore-protocol/group\<close>, at the interface the client uses: the ordered
  leaves, \<open>indexOf\<close> (the position of the first equal leaf, \<open>-1\<close> if there is none) and
  \<open>generateMerkleProof\<close>, whose result is kept symbolic.
\<close>

type_synonym group = "int list"

fun indexOf :: "group \<Rightarrow> int \<Rightarrow> int" where
  "indexOf [] c = - 1"
| "indexOf (m # ms) c =
     (if m = c then 0 else (let i = indexOf ms c in if i = - 1 then - 1 else i + 1))"

datatype merkle_proof = MerkleProof group int

definition generateMerkleProof :: "group \<Rightarrow> int \<Rightarrow> merkle_proof" where
  "generateMerkleProof g index = MerkleProof g index"

datatype proof_message = TextMessage js_string | BytesMessage "byte list"

datatype http_body =
    AddMemberBody js_string js_string
  | JoinProofBody js_string semaphore_proof int js_string
  | ModTrainProofBody semaphore_proof int "byte list" js_string

text \<open>What \<open>axios.post\<close> rejects with: the response data, if a response came, and the
  error's message.\<close>

record http_error =
  response_data :: "js_string option"
  err_message :: js_string

text \<open>\<open>err.response?.data || err.message\<close>\<close>

definition error_detail :: "http_error \<Rightarrow> js_string" where
  "error_detail err =
     (case response_data err of
        None \<Rightarrow> err_message err
      | Some d \<Rightarrow> if d = [] then err_message err else d)"

datatype console_arg =
    Detail js_string
  | HttpError http_error
  | Thrown js_error
  | Members "js_string list option"

datatype effect =
    HttpPost js_string http_body
  | GenerateProof identity merkle_proof proof_message js_string
  | ConsoleLog js_string "console_arg list"
  | ConsoleError js_string "console_arg list"

text \<open>
  The collaborators outside the repository, as the client sees them: the verifier's
  answer to a POST (\<open>None\<close> is a success response), the proof generator, the contract's
  read-only \<open>hasMember\<close> and the constructor of \<open>Group\<close>. Each may throw.
\<close>

record world =
  SERVER_URL :: js_string
  post :: "js_string \<Rightarrow> http_body \<Rightarrow> http_error option"
  generateProof ::
    "identity \<Rightarrow> merkle_proof \<Rightarrow> proof_message \<Rightarrow> js_string \<Rightarrow> js_error + semaphore_proof"
  hasMember :: "js_string \<Rightarrow> int \<Rightarrow> js_error + bool"
  new_Group :: "js_string list option \<Rightarrow> js_error + group"

definition addMember :: "world \<Rightarrow> js_string \<Rightarrow> int \<Rightarrow> effect list" where
  "addMember w groupId identityCommitment =
     (let url = SERVER_URL w @ js ''/add-member'';
          body = AddMemberBody groupId (bigint_toString identityCommitment)
      in [HttpPost url body,
          (case post w url body of
             None \<Rightarrow> ConsoleLog (js (CHR 0x0A # ''Membre added to the group.'')) []
           | Some err \<Rightarrow>
               ConsoleError (js (CHR 0x0A # ''Error adding member :'')) [HttpError err])])"

definition sendJoinProof ::
  "world \<Rightarrow> js_string \<Rightarrow> group \<Rightarrow> identity \<Rightarrow> int \<Rightarrow> (js_error + unit) \<times> effect list" where
  "sendJoinProof w groupId grp identity commitment =
     (let index = indexOf grp commitment in
      if index = - 1 then (Inl (Error (CHR 0x0A # ''Commitment not found in the group'')), [])
      else
        let scope = js ''join-'' @ groupId;
            message = js ''join-'' @ take 8 (bigint_toString commitment);
            witness = generateMerkleProof grp index;
            call = GenerateProof identity witness (TextMessage message) scope
        in case generateProof w identity witness (TextMessage message) scope of
             Inl e \<Rightarrow> (Inl e, [call])
           | Inr joinProof \<Rightarrow>
               let url = SERVER_URL w @ js ''/group/'' @ groupId @ js ''/join-proof'';
                   body = JoinProofBody (bigint_toString commitment) joinProof
                            (nullifier joinProof) scope
               in (Inr (),
                   [call, HttpPost url body,
                    (case post w url body of
                       None \<Rightarrow> ConsoleLog (js (CHR 0x0A # ''Join Proof sent and accepted'')) []
                     | Some err \<Rightarrow>
                         ConsoleError (js (CHR 0x0A # ''Error while sending Join Proof :''))
                           [Detail (error_detail err)])]))"

text \<open>
  An element of \<open>deltaw\<close> as it is at run time: a \<open>bigint\<close>, a \<open>number\<close>, a \<open>string\<close>, a
  \<open>BigNumber\<close> object (which the declared type admits), or anything else.
\<close>

datatype deltaw_item =
    BigIntItem int
  | NumberItem js_number
  | StringItem js_string
  | BigNumberItem int
  | OtherItem

text \<open>The callback of \<open>deltaw.map\<close>.\<close>

fun item_toString :: "deltaw_item \<Rightarrow> js_error + js_string" where
  "item_toString (BigIntItem i) = Inr (bigint_toString i)"
| "item_toString (NumberItem x) =
     (if \<not> isSafeInteger x then Inl (Error ''Unsafe number in deltaw'')
      else Inr (number_toString x))"
| "item_toString (StringItem s) = Inr s"
| "item_toString _ = Inl (Error ''Unsupported deltaw element type'')"

text \<open>\<open>Array.prototype.map\<close> with a callback that may throw: the first throw ends it.\<close>

fun Array_map :: "('a \<Rightarrow> js_error + 'b) \<Rightarrow> 'a list \<Rightarrow> js_error + 'b list" where
  "Array_map f [] = Inr []"
| "Array_map f (x # xs) =
     (case f x of
        Inl e \<Rightarrow> Inl e
      | Inr y \<Rightarrow> (case Array_map f xs of Inl e \<Rightarrow> Inl e | Inr ys \<Rightarrow> Inr (y # ys)))"

definition sendModTrainProof ::
  "world \<Rightarrow> js_string \<Rightarrow> group \<Rightarrow> identity \<Rightarrow> int \<Rightarrow> js_string \<Rightarrow> deltaw_item list
     \<Rightarrow> (js_error + unit) \<times> effect list" where
  "sendModTrainProof w groupId grp identity commitment scope deltaw =
     (let index = indexOf grp commitment in
      if index = - 1 then (Inl (Error ''Commitment not found in the group''), [])
      else
        case Array_map item_toString deltaw of
          Inl e \<Rightarrow> (Inl e, [])
        | Inr stringArray \<Rightarrow>
            let jsonString = JSON_stringify stringArray;
                message = TextEncoder_encode jsonString;
                witness = generateMerkleProof grp index;
                call = GenerateProof identity witness (BytesMessage message) scope
            in case generateProof w identity witness (BytesMessage message) scope of
                 Inl e \<Rightarrow> (Inl e, [call])
               | Inr fullProof \<Rightarrow>
                   let url = SERVER_URL w @ js ''/group/'' @ groupId @ js ''/modtrain-proof'';
                       body = ModTrainProofBody fullProof (nullifier fullProof) message scope
                   in (Inr (),
                       [call, HttpPost url body,
                        (case post w url body of
                           None \<Rightarrow>
                             ConsoleLog (js (CHR 0x0A # ''Model Update Proof sent and accepted'')) []
                         | Some err \<Rightarrow>
                             ConsoleError (js ''Error while sending Model Update Proof :'')
                               [Detail (error_detail err)])]))"

section \<open>The event bus and the wait for a member event\<close>

text \<open>
  \<open>blockchainEvents\<close> is a Node \<open>EventEmitter\<close>: per event name, the listeners in the
  order of their registration. The only listeners the client registers here are the
  handlers that \<open>waitForMemberEvent\<close> creates; a handler is the promise it resolves and
  the two values it has captured. \<open>resolved\<close> holds the promises already resolved,
  \<open>promises\<close> counts the promises created so far, and \<open>emitted\<close> records the calls of
  \<open>emit\<close>.
\<close>

datatype listener = MemberEventHandler nat js_string "int option"

type_synonym mirror = "js_string \<Rightarrow> js_string list option"

record state =
  isWaitingForMemberEvent :: bool
  listeners :: "string \<Rightarrow> listener list"
  resolved :: "nat set"
  promises :: nat
  emitted :: "(string \<times> js_string \<times> js_string option) list"
  members :: mirror
  members_file :: mirror
  saved_group_ids :: "js_string list"
  effects :: "effect list"

definition initial :: state where
  "initial =
     \<lparr>isWaitingForMemberEvent = False, listeners = (\<lambda>_. []), resolved = {}, promises = 0,
      emitted = [], members = Map.empty, members_file = Map.empty, saved_group_ids = [],
      effects = []\<rparr>"

definition on :: "string \<Rightarrow> listener \<Rightarrow> state \<Rightarrow> state" where
  "on eventName h st = st\<lparr>listeners := (listeners st)(eventName := listeners st eventName @ [h])\<rparr>"

text \<open>\<open>off\<close> removes the most recently added instance of the listener, if there is one.\<close>

definition off :: "string \<Rightarrow> listener \<Rightarrow> state \<Rightarrow> state" where
  "off eventName h st =
     st\<lparr>listeners := (listeners st)(eventName := rev (remove1 h (rev (listeners st eventName))))\<rparr>"

text \<open>The body of the handler: \<open>!identityCommitment\<close> holds for \<open>undefined\<close> and for \<open>0n\<close>.\<close>

fun call_listener :: "listener \<Rightarrow> js_string \<Rightarrow> js_string option \<Rightarrow> state \<Rightarrow> state" where
  "call_listener (MemberEventHandler p groupId identityCommitment) emittedGroupId
       emittedCommitment st =
     (if emittedGroupId = groupId then
        (if (case identityCommitment of
               None \<Rightarrow> True
             | Some c \<Rightarrow> c = 0 \<or> emittedCommitment = Some (bigint_toString c))
         then
           let h = MemberEventHandler p groupId identityCommitment;
               st1 = off ''MemberAddedProcessed'' h st;
               st2 = off ''MemberRemovedProcessed'' h st1;
               st3 = off ''MemberUpdatedProcessed'' h st2
           in st3\<lparr>isWaitingForMemberEvent := False, resolved := insert p (resolved st3)\<rparr>
         else st)
      else st)"

text \<open>\<open>emit\<close> calls, in order, the listeners that were registered when it started.\<close>

definition emit :: "string \<Rightarrow> js_string \<Rightarrow> js_string option \<Rightarrow> state \<Rightarrow> state" where
  "emit eventName a b st =
     fold (\<lambda>h s. call_listener h a b s) (listeners st eventName)
       (st\<lparr>emitted := emitted st @ [(eventName, a, b)]\<rparr>)"

text \<open>The promise a call returns: already resolved, or the pending promise with this number.\<close>

datatype promise = Resolved | Pending nat

fun settled :: "state \<Rightarrow> promise \<Rightarrow> bool" where
  "settled st Resolved = True"
| "settled st (Pending p) = (p \<in> resolved st)"

definition waitForMemberEvent :: "state \<Rightarrow> js_string \<Rightarrow> int option \<Rightarrow> promise \<times> state" where
  "waitForMemberEvent st groupId identityCommitment =
     (if isWaitingForMemberEvent st then (Resolved, st)
      else
        let p = promises st;
            st1 = st\<lparr>isWaitingForMemberEvent := True, promises := p + 1\<rparr>;
            handler = MemberEventHandler p groupId identityCommitment;
            st2 = on ''MemberAddedProcessed'' handler st1;
            st3 = on ''MemberRemovedProcessed'' handler st2;
            st4 = on ''MemberUpdatedProcessed'' handler st3
        in (Pending p, st4))"

section \<open>The contract event bridge\<close>

subsection \<open>The membership mirror\<close>

text \<open>Modelled from the spec: \<open>loadMembers\<close> of \<open>src/functions/groupStorage\<close>, which is not
  among the sources; it returns the persisted mapping.\<close>

definition loadMembers :: "state \<Rightarrow> mirror" where
  "loadMembers st = members_file st"

text \<open>Modelled from the spec: \<open>saveMembers\<close> of \<open>src/functions/groupStorage\<close>; it persists
  the mapping as a whole.\<close>

definition saveMembers :: "mirror \<Rightarrow> state \<Rightarrow> state" where
  "saveMembers m st = st\<lparr>members_file := m\<rparr>"

text \<open>Modelled from the spec: \<open>addMember\<close> of \<open>src/functions/groupStorage\<close>; a no-op if the
  commitment is already present, otherwise the commitment is added at the end.\<close>

definition groupStorage_addMember :: "mirror \<Rightarrow> js_string \<Rightarrow> js_string \<Rightarrow> mirror" where
  "groupStorage_addMember m groupId commitment =
     (case m groupId of
        None \<Rightarrow> m(groupId \<mapsto> [commitment])
      | Some cs \<Rightarrow> if commitment \<in> set cs then m else m(groupId \<mapsto> cs @ [commitment]))"

text \<open>Modelled from the spec: \<open>removeMember\<close> of \<open>src/functions/groupStorage\<close>; a no-op if
  the commitment is absent.\<close>

definition groupStorage_removeMember :: "mirror \<Rightarrow> js_string \<Rightarrow> js_string \<Rightarrow> mirror" where
  "groupStorage_removeMember m groupId commitment =
     (case m groupId of
        None \<Rightarrow> m
      | Some cs \<Rightarrow> if commitment \<in> set cs then m(groupId \<mapsto> remove1 commitment cs) else m)"

text \<open>Modelled from the spec: \<open>updateMember\<close> of \<open>src/functions/groupStorage\<close>; it replaces
  the old commitment by the new one at its position, and adds the new one if the old one
  is absent.\<close>

definition groupStorage_updateMember ::
  "mirror \<Rightarrow> js_string \<Rightarrow> js_string \<Rightarrow> js_string \<Rightarrow> mirror" where
  "groupStorage_updateMember m groupId old new =
     (case m groupId of
        None \<Rightarrow> groupStorage_addMember m groupId new
      | Some cs \<Rightarrow>
          if old \<in> set cs then m(groupId \<mapsto> map (\<lambda>c. if c = old then new else c) cs)
          else groupStorage_addMember m groupId new)"

text \<open>Modelled from the spec: \<open>saveGroupId\<close> of \<open>src/functions/groupStorage\<close>, of which the
  spec says nothing; the identifiers it is called with are recorded in order.\<close>

definition saveGroupId :: "js_string \<Rightarrow> state \<Rightarrow> state" where
  "saveGroupId idStr st = st\<lparr>saved_group_ids := saved_group_ids st @ [idStr]\<rparr>"

subsection \<open>The handlers of the ledger events\<close>

text \<open>
  The events of the contract with their arguments, in the contract's order. A log of
  the chain carries its block number; \<open>decoded\<close> tells whether it has \<open>args\<close>.
\<close>

datatype raw_event =
    GroupCreatedEvent int
  | MemberAddedEvent int int int
  | MembersAddedEvent int int "int list"
  | MemberRemovedEvent int int int
  | MemberUpdatedEvent int int int int

fun event_name :: "raw_event \<Rightarrow> string" where
  "event_name (GroupCreatedEvent _) = ''GroupCreated''"
| "event_name (MemberAddedEvent _ _ _) = ''MemberAdded''"
| "event_name (MembersAddedEvent _ _ _) = ''MembersAdded''"
| "event_name (MemberRemovedEvent _ _ _) = ''MemberRemoved''"
| "event_name (MemberUpdatedEvent _ _ _ _) = ''MemberUpdated''"

record log =
  blockNumber :: nat
  event :: raw_event
  decoded :: bool

definition console_log :: "js_string \<Rightarrow> console_arg list \<Rightarrow> state \<Rightarrow> state" where
  "console_log msg args st = st\<lparr>effects := effects st @ [ConsoleLog msg args]\<rparr>"

text \<open>
  The five callbacks that \<open>startBlockchainListeners\<close> passes to \<open>processEvent\<close>, one event
  name after the other; \<open>members\<close> is the mapping it loads after the first. Each callback
  is only ever called with the arguments of an event of its own name, so the last
  equation of each is never used.
\<close>

fun on_GroupCreated :: "raw_event \<Rightarrow> state \<Rightarrow> state" where
  "on_GroupCreated (GroupCreatedEvent groupId) st =
     (let idStr = bigint_toString groupId;
          st1 = saveGroupId idStr st
      in emit ''GroupCreated'' idStr None st1)"
| "on_GroupCreated _ st = st"

fun on_MemberAdded :: "raw_event \<Rightarrow> state \<Rightarrow> state" where
  "on_MemberAdded (MemberAddedEvent groupId index identityCommitment) st =
     (let st1 = console_log
                  (js (CHR 0x0A # ''MemberAdded: groupId='') @ bigint_toString groupId @
                   js '' identityCommitment='' @ bigint_toString identityCommitment) [] st;
          st2 = st1\<lparr>members := groupStorage_addMember (members st1) (bigint_toString groupId)
                                  (bigint_toString identityCommitment)\<rparr>;
          st3 = saveMembers (members st2) st2
      in emit ''MemberAddedProcessed'' (bigint_toString groupId)
           (Some (bigint_toString identityCommitment)) st3)"
| "on_MemberAdded _ st = st"

fun on_MembersAdded :: "raw_event \<Rightarrow> state \<Rightarrow> state" where
  "on_MembersAdded (MembersAddedEvent groupId startIndex identityCommitments) st =
     (let st1 = console_log
                  (js (CHR 0x0A # ''Batch members added to group '') @ bigint_toString groupId)
                  [] st;
          st2 = st1\<lparr>members :=
                      fold (\<lambda>commitment m.
                              groupStorage_addMember m (bigint_toString groupId)
                                (bigint_toString commitment))
                        identityCommitments (members st1)\<rparr>
      in saveMembers (members st2) st2)"
| "on_MembersAdded _ st = st"

fun on_MemberRemoved :: "raw_event \<Rightarrow> state \<Rightarrow> state" where
  "on_MemberRemoved (MemberRemovedEvent groupId index identityCommitment) st =
     (let st1 = console_log
                  (js (CHR 0x0A # ''MemberRemoved: groupId='') @ bigint_toString groupId @
                   js '' identityCommitment='' @ bigint_toString identityCommitment) [] st;
          st2 = st1\<lparr>members := groupStorage_removeMember (members st1) (bigint_toString groupId)
                                  (bigint_toString identityCommitment)\<rparr>;
          st3 = saveMembers (members st2) st2
      in emit ''MemberRemovedProcessed'' (bigint_toString groupId)
           (Some (bigint_toString identityCommitment)) st3)"
| "on_MemberRemoved _ st = st"

fun on_MemberUpdated :: "raw_event \<Rightarrow> state \<Rightarrow> state" where
  "on_MemberUpdated (MemberUpdatedEvent groupId index oldIdentityCommitment
       newIdentityCommitment) st =
     (let st1 = console_log
                  (js (CHR 0x0A # ''MemberUpdated: groupId='') @ bigint_toString groupId @
                   js '' old='' @ bigint_toString oldIdentityCommitment @
                   js '' new='' @ bigint_toString newIdentityCommitment) [] st;
          st2 = st1\<lparr>members := groupStorage_updateMember (members st1) (bigint_toString groupId)
                                  (bigint_toString oldIdentityCommitment)
                                  (bigint_toString newIdentityCommitment)\<rparr>;
          st3 = saveMembers (members st2) st2
      in emit ''MemberUpdatedProcessed'' (bigint_toString groupId)
           (Some (bigint_toString newIdentityCommitment)) st3)"
| "on_MemberUpdated _ st = st"

subsection \<open>Backfill and live subscription\<close>

text \<open>
  The ledger client is outside the repository. At its interface, \<open>queryFilter\<close> answers with
  the logs of one event name from \<open>fromBlock\<close> up to the block that is the chain head when
  the query is answered (\<open>latest\<close>), and a subscription made by \<open>contract.on\<close> delivers the
  events of that name mined after the block that is the head when the subscription
  starts (\<open>since\<close>). The two heads are the timing of a run of \<open>processEvent\<close>.
\<close>

definition queryFilter :: "log list \<Rightarrow> string \<Rightarrow> nat \<Rightarrow> nat \<Rightarrow> log list" where
  "queryFilter chain eventName fromBlock latest =
     filter (\<lambda>e. event_name (event e) = eventName \<and> fromBlock \<le> blockNumber e \<and>
                 blockNumber e \<le> latest) chain"

definition subscription :: "log list \<Rightarrow> string \<Rightarrow> nat \<Rightarrow> raw_event list" where
  "subscription chain eventName since =
     map event (filter (\<lambda>e. event_name (event e) = eventName \<and> since < blockNumber e) chain)"

text \<open>
  \<open>processEvent\<close>, first the part that runs until the call returns: the handler is called
  on every past event that has \<open>args\<close>, in the order of the answer.
\<close>

definition backfill ::
  "log list \<Rightarrow> string \<Rightarrow> (raw_event \<Rightarrow> 's \<Rightarrow> 's) \<Rightarrow> nat \<Rightarrow> nat \<Rightarrow> 's \<Rightarrow> 's" where
  "backfill chain eventName handler fromBlock latest st =
     (let pastEvents = queryFilter chain eventName fromBlock latest
      in fold (\<lambda>e s. if decoded e then handler (event e) s else s) pastEvents st)"

text \<open>
  \<open>processEvent\<close> for one event name on its own: after the backfill the handler is called
  on every event that the subscription delivers.
\<close>

definition processEvent ::
  "log list \<Rightarrow> string \<Rightarrow> (raw_event \<Rightarrow> 's \<Rightarrow> 's) \<Rightarrow> nat \<Rightarrow> nat \<Rightarrow> nat \<Rightarrow> 's \<Rightarrow> 's" where
  "processEvent chain eventName handler fromBlock latest since st =
     (let st1 = backfill chain eventName handler fromBlock latest st
      in fold handler (subscription chain eventName since) st1)"

subsection \<open>The five event names together\<close>






section \<open>The coordinator\<close>

definition isAlreadyMember ::
  "world \<Rightarrow> js_string \<Rightarrow> int \<Rightarrow> (js_error + bool) \<times> effect list" where
  "isAlreadyMember w groupId commitment =
     (case hasMember w groupId commitment of
        Inr result \<Rightarrow> (Inr result, [])
      | Inl error \<Rightarrow> (Inl error, [ConsoleError (js ''Error verifying member:'') [Thrown error]]))"

text \<open>
  How a run of \<open>main\<close> stands when it stops: it returned, it threw, or it is suspended on
  the promise of \<open>waitForMemberEvent\<close>.
\<close>

datatype outcome = Completed | Failed js_error | Suspended nat

definition perform :: "effect list \<Rightarrow> state \<Rightarrow> state" where
  "perform es st = st\<lparr>effects := effects st @ es\<rparr>"

text \<open>\<open>main\<close> from the line after the membership branch: steps 10 to 12.\<close>

definition main_proofs :: "world \<Rightarrow> js_string \<Rightarrow> identity \<Rightarrow> int \<Rightarrow> state \<Rightarrow> outcome \<times> state" where
  "main_proofs w groupId identity commitment st =
     (let members = loadMembers st;
          groupMembers = members groupId;
          st1 = console_log (js (CHR 0x0A # ''10. The members of the group :'' @ [CHR 0x0A, CHR 0x0A]))
                  [Members groupMembers] st
      in case new_Group w groupMembers of
           Inl e \<Rightarrow> (Failed e, st1)
         | Inr grp \<Rightarrow>
             let st2 = console_log
                         (js (CHR 0x0A # ''11. Sending proof of membership to the server'')) [] st1
             in case sendJoinProof w groupId grp identity commitment of
                  (Inl e, es) \<Rightarrow> (Failed e, perform es st2)
                | (Inr _, es) \<Rightarrow>
                    let st3 = console_log
                                (js (CHR 0x0A # ''12. Sending proof of model update to the server''))
                                [] (perform es st2);
                        scope = js ''round-1'';
                        message = [BigIntItem 1, BigIntItem 2, BigIntItem 3]
                    in case sendModTrainProof w groupId grp identity commitment scope message of
                         (Inl e, es') \<Rightarrow> (Failed e, perform es' st3)
                       | (Inr _, es') \<Rightarrow> (Completed, perform es' st3))"

text \<open>
  \<open>main\<close> from step 9 on. Steps 1 to 8 create the identity with collaborators outside the
  repository; their result, the identity and its commitment, is a parameter. A run that
  reaches a pending promise stops there; \<open>main_proofs\<close> is how it goes on once the promise
  is resolved.
\<close>

definition main :: "world \<Rightarrow> js_string \<Rightarrow> identity \<Rightarrow> int \<Rightarrow> state \<Rightarrow> outcome \<times> state" where
  "main w groupId identity commitment st =
     (let st0 = console_log
                  (js (CHR 0x0A # ''9. Sending a request to join a group to the server'')) [] st
      in case isAlreadyMember w groupId commitment of
           (Inl e, es) \<Rightarrow> (Failed e, perform es st0)
         | (Inr alreadyMember, es) \<Rightarrow>
             if \<not> alreadyMember then
               let st1 = perform (addMember w groupId commitment) (perform es st0);
                   st2 = console_log (js (CHR 0x0A # ''Waiting for member event processing...''))
                           [] st1
               in case waitForMemberEvent st2 groupId (Some commitment) of
                    (Resolved, st3) \<Rightarrow> main_proofs w groupId identity commitment st3
                  | (Pending p, st3) \<Rightarrow> (Suspended p, st3)
             else
               main_proofs w groupId identity commitment
                 (console_log (js (CHR 0x0A # ''Already a member.'')) [] (perform es st0)))"

section \<open>Notions of the specification and example inputs\<close>

text \<open>
  A model-update value the specification rejects: a number that is not a safe integer,
  or a value that is neither a \<open>bigint\<close>, a \<open>number\<close> nor a \<open>string\<close>.
\<close>

fun unsupported_value :: "deltaw_item \<Rightarrow> bool" where
  "unsupported_value (BigIntItem i) = False"
| "unsupported_value (NumberItem x) = (\<not> isSafeInteger x)"
| "unsupported_value (StringItem s) = False"
| "unsupported_value (BigNumberItem b) = True"
| "unsupported_value OtherItem = True"

text \<open>The specification's \<open>UnsupportedValueError\<close> is either of the two errors that the
  callback of \<open>deltaw.map\<close> throws.\<close>

definition is_UnsupportedValueError :: "js_error \<Rightarrow> bool" where
  "is_UnsupportedValueError e =
     (e = Error ''Unsafe number in deltaw'' \<or> e = Error ''Unsupported deltaw element type'')"

text \<open>A numeric string: decimal digits, after an optional minus sign.\<close>

definition is_digit :: "code_unit \<Rightarrow> bool" where
  "is_digit u = (0x30 \<le> u \<and> u \<le> 0x39)"

definition numeric_string :: "js_string \<Rightarrow> bool" where
  "numeric_string s =
     (case s of
        [] \<Rightarrow> False
      | u # us \<Rightarrow> if u = 0x2D then us \<noteq> [] \<and> list_all is_digit us else list_all is_digit s)"

text \<open>
  A supported model-update value, and its canonical form: the decimal string of an
  integer, a numeric string as it is.
\<close>

fun supported :: "deltaw_item \<Rightarrow> bool" where
  "supported (BigIntItem i) = True"
| "supported (NumberItem x) = isSafeInteger x"
| "supported (StringItem s) = numeric_string s"
| "supported (BigNumberItem b) = False"
| "supported OtherItem = False"

fun canonical :: "deltaw_item \<Rightarrow> js_string" where
  "canonical (BigIntItem i) = bigint_toString i"
| "canonical (NumberItem (Integral i)) = bigint_toString i"
| "canonical (StringItem s) = s"
| "canonical _ = []"

text \<open>
  The proof message as the specification describes it, byte by byte: an opening bracket,
  the canonical forms in double quotes, separated by commas, and a closing bracket, each
  character as its ASCII byte.
\<close>

fun separate :: "'a \<Rightarrow> 'a list list \<Rightarrow> 'a list" where
  "separate c [] = []"
| "separate c [x] = x"
| "separate c (x # y # ys) = x @ [c] @ separate c (y # ys)"

definition spec_message :: "deltaw_item list \<Rightarrow> byte list" where
  "spec_message vs =
     [0x5B] @ separate 0x2C (map (\<lambda>v. [0x22] @ map ucast (canonical v) @ [0x22]) vs) @ [0x5D]"

text \<open>A code unit that \<open>JSON.stringify\<close> copies and UTF-8 encodes as one byte.\<close>

definition plain_ascii :: "code_unit \<Rightarrow> bool" where
  "plain_ascii u = (0x20 \<le> u \<and> u < 0x80 \<and> u \<noteq> 0x22 \<and> u \<noteq> 0x5C)"

text \<open>An add-member request among the effects.\<close>

fun is_add_member_request :: "effect \<Rightarrow> bool" where
  "is_add_member_request (HttpPost url (AddMemberBody g c)) = True"
| "is_add_member_request _ = False"

text \<open>The three event names on which \<open>waitForMemberEvent\<close> registers its handler.\<close>

definition member_event_names :: "string set" where
  "member_event_names =
     {''MemberAddedProcessed'', ''MemberRemovedProcessed'', ''MemberUpdatedProcessed''}"

text \<open>
  The states of the bus that the client and the bridge can reach: every resolved promise
  has been created, and the listeners are those of the one pending wait, if a wait is
  pending, and none otherwise.
\<close>

definition wf_bus :: "state \<Rightarrow> bool" where
  "wf_bus st =
     ((\<forall>p \<in> resolved st. p < promises st) \<and>
      (if isWaitingForMemberEvent st
       then \<exists>p g ic. p < promises st \<and> p \<notin> resolved st \<and>
              listeners st =
                (\<lambda>n. if n \<in> member_event_names then [MemberEventHandler p g ic] else [])
       else listeners st = (\<lambda>n. [])))"

text \<open>Promise \<open>p\<close> is pending and its handler, for group \<open>g\<close> and commitment \<open>c\<close>, is the
  only listener.\<close>

definition waiting_for :: "state \<Rightarrow> nat \<Rightarrow> js_string \<Rightarrow> int \<Rightarrow> bool" where
  "waiting_for st p g c =
     (p \<notin> resolved st \<and>
      listeners st =
        (\<lambda>n. if n \<in> member_event_names then [MemberEventHandler p g (Some c)] else []))"

text \<open>A sequence of events emitted on the bus, and the events that carry a given key
  under one of the three names.\<close>

fun emit_all :: "(string \<times> js_string \<times> js_string option) list \<Rightarrow> state \<Rightarrow> state" where
  "emit_all [] st = st"
| "emit_all ((n, a, b) # evs) st = emit_all evs (emit n a b st)"

definition matches_key :: "js_string \<Rightarrow> int \<Rightarrow> string \<times> js_string \<times> js_string option \<Rightarrow> bool" where
  "matches_key g c ev =
     (case ev of (n, a, b) \<Rightarrow> n \<in> member_event_names \<and> a = g \<and> b = Some (bigint_toString c))"

text \<open>The mirror holds a commitment in a group.\<close>

definition in_mirror :: "mirror \<Rightarrow> js_string \<Rightarrow> js_string \<Rightarrow> bool" where
  "in_mirror m groupId commitment =
     (case m groupId of None \<Rightarrow> False | Some cs \<Rightarrow> commitment \<in> set cs)"










text \<open>
  Example inputs. In \<open>example_world\<close> every collaborator succeeds and the caller is a
  member; in \<open>failing_world\<close> every POST is refused and the caller is not yet a member.
  \<open>first_wait\<close> is the state after one wait was registered for group 7 and commitment
  123. \<open>late_chain\<close> is a ledger whose only event, the joining of 123, is in block 1.
\<close>

definition example_world :: world where
  "example_world =
     \<lparr>SERVER_URL = js ''http://localhost:3333'',
      post = (\<lambda>url body. None),
      generateProof = (\<lambda>i m msg s. Inr \<lparr>nullifier = 1, points = []\<rparr>),
      hasMember = (\<lambda>g c. Inr True),
      new_Group = (\<lambda>ms. Inr [123])\<rparr>"

definition failing_world :: world where
  "failing_world =
     example_world
       \<lparr>post := (\<lambda>url body. Some \<lparr>response_data = None, err_message = js ''Network Error''\<rparr>),
        hasMember := (\<lambda>g c. Inr False)\<rparr>"

definition first_wait :: state where
  "first_wait = snd (waitForMemberEvent initial (js ''7'') (Some 123))"





section \<open>Auxiliary facts\<close>

subsection \<open>Position in the group\<close>

lemma indexOf_ge: "- 1 \<le> indexOf g c"
  by (induction g) (auto simp: Let_def)

lemma indexOf_absent: "indexOf g c = - 1 \<longleftrightarrow> c \<notin> set g"
proof (induction g)
  case Nil
  then show ?case by simp
next
  case (Cons m ms)
  have "- 1 \<le> indexOf ms c" by (rule indexOf_ge)
  with Cons show ?case by (auto simp: Let_def)
qed

subsection \<open>Decimal strings are plain ASCII\<close>

lemma digit_cases:
  assumes "d < 10"
  shows "digit d \<in> {0x30, 0x31, 0x32, 0x33, 0x34, 0x35, 0x36, 0x37, 0x38, 0x39}"
proof -
  from assms have
    "d = 0 \<or> d = 1 \<or> d = 2 \<or> d = 3 \<or> d = 4 \<or> d = 5 \<or> d = 6 \<or> d = 7 \<or> d = 8 \<or> d = 9"
    by arith
  then show ?thesis
    by (elim disjE) (simp_all add: digit_def)
qed

lemma digit_plain: "d < 10 \<Longrightarrow> plain_ascii (digit d)"
  using digit_cases [of d] by (auto simp: plain_ascii_def)

lemma ascii_not_surrogate:
  "u < 0x80 \<Longrightarrow> \<not> is_high_surrogate u \<and> \<not> is_low_surrogate u"
  by (simp add: is_high_surrogate_def is_low_surrogate_def word_less_nat_alt word_le_nat_alt)

lemma plain_ascii_lt: "plain_ascii u \<Longrightarrow> u < 0x80"
  by (simp add: plain_ascii_def)

lemma nat_toString_plain: "u \<in> set (nat_toString n) \<Longrightarrow> plain_ascii u"
proof (induction n rule: nat_toString.induct)
  case (1 n)
  show ?case
  proof (cases "n < 10")
    case True
    with "1.prems" show ?thesis
      by (simp add: nat_toString.simps [of n] digit_plain)
  next
    case False
    with "1.prems" have "u \<in> set (nat_toString (n div 10)) \<or> u = digit (n mod 10)"
      by (auto simp: nat_toString.simps [of n])
    then show ?thesis
      using "1.IH" False by (auto simp: digit_plain)
  qed
qed

lemma minus_plain: "plain_ascii 0x2D"
  by (simp add: plain_ascii_def)

lemma bigint_toString_plain: "u \<in> set (bigint_toString i) \<Longrightarrow> plain_ascii u"
  by (auto simp: bigint_toString_def js_def minus_plain split: if_splits dest: nat_toString_plain)

lemma is_digit_plain: "is_digit u \<Longrightarrow> plain_ascii u"
  by (auto simp: is_digit_def plain_ascii_def word_less_nat_alt word_le_nat_alt)

lemma numeric_string_plain: "numeric_string s \<Longrightarrow> u \<in> set s \<Longrightarrow> plain_ascii u"
  by (cases s)
     (auto simp: numeric_string_def list_all_iff is_digit_plain minus_plain split: if_splits)

lemma canonical_plain: "supported v \<Longrightarrow> u \<in> set (canonical v) \<Longrightarrow> plain_ascii u"
proof (cases v)
  case (NumberItem x)
  assume "supported v" "u \<in> set (canonical v)"
  with NumberItem show ?thesis by (cases x) (auto dest: bigint_toString_plain)
qed (auto dest: bigint_toString_plain numeric_string_plain)

subsection \<open>Quoting and encoding plain ASCII\<close>

lemma quote_unit_plain: "plain_ascii u \<Longrightarrow> quote_unit u = [u]"
  using ascii_not_surrogate [of u]
  by (auto simp: plain_ascii_def quote_unit_def word_less_nat_alt word_le_nat_alt)

lemma quote_units_plain: "\<forall>u \<in> set s. plain_ascii u \<Longrightarrow> quote_units s = s"
  by (induction s rule: quote_units.induct)
     (auto simp: quote_unit_plain dest: plain_ascii_lt ascii_not_surrogate)

lemma Quote_plain:
  "\<forall>u \<in> set s. plain_ascii u \<Longrightarrow> QuoteJSONString s = 0x22 # s @ [0x22]"
  by (simp add: QuoteJSONString_def quote_units_plain js_def)

lemma utf8_ascii: "u < 0x80 \<Longrightarrow> utf8_code_point (scalar_of_unit u) = [ucast u]"
  using ascii_not_surrogate [of u]
  by (simp add: utf8_code_point_def scalar_of_unit_def word_less_nat_alt)

lemma TextEncoder_ascii: "\<forall>u \<in> set s. u < 0x80 \<Longrightarrow> TextEncoder_encode s = map ucast s"
  by (induction s rule: TextEncoder_encode.induct)
     (auto simp: utf8_ascii dest: ascii_not_surrogate)

lemma ucast_join_comma:
  "map ucast (join_comma xs) = separate (0x2C :: byte) (map (map ucast) xs)"
  by (induction xs rule: join_comma.induct) (simp_all add: js_def)

lemma join_comma_ascii:
  "\<forall>x \<in> set xs. \<forall>u \<in> set x. u < 0x80 \<Longrightarrow> \<forall>u \<in> set (join_comma xs). u < 0x80"
  by (induction xs rule: join_comma.induct) (auto simp: js_def)

subsection \<open>The callback of \<open>deltaw.map\<close>\<close>

lemma Array_map_unsupported:
  "\<exists>v \<in> set vs. unsupported_value v \<Longrightarrow>
   \<exists>e. Array_map item_toString vs = Inl e \<and> is_UnsupportedValueError e"
proof (induction vs)
  case Nil
  then show ?case by simp
next
  case (Cons v vs)
  show ?case
  proof (cases "unsupported_value v")
    case True
    then show ?thesis
      by (cases v) (auto simp: is_UnsupportedValueError_def)
  next
    case False
    with Cons.prems have "\<exists>v \<in> set vs. unsupported_value v" by simp
    from Cons.IH [OF this] obtain e where
      e: "Array_map item_toString vs = Inl e" "is_UnsupportedValueError e" by blast
    from False e show ?thesis
      by (cases v) (auto simp: is_UnsupportedValueError_def split: sum.splits)
  qed
qed

lemma Array_map_supported:
  "\<forall>v \<in> set vs. supported v \<Longrightarrow> Array_map item_toString vs = Inr (map canonical vs)"
proof (induction vs)
  case Nil
  then show ?case by simp
next
  case (Cons v vs)
  then have "supported v" and IH: "Array_map item_toString vs = Inr (map canonical vs)"
    by simp_all
  from \<open>supported v\<close> have "item_toString v = Inr (canonical v)"
  proof (cases v)
    case (NumberItem x)
    with \<open>supported v\<close> show ?thesis by (cases x) simp_all
  qed simp_all
  with IH show ?case by simp
qed

lemma message_bytes:
  assumes "\<forall>v \<in> set vs. supported v"
  shows "TextEncoder_encode (JSON_stringify (map canonical vs)) = spec_message vs"
proof -
  have q: "map QuoteJSONString (map canonical vs) = map (\<lambda>v. 0x22 # canonical v @ [0x22]) vs"
    using assms by (auto simp: Quote_plain canonical_plain)
  have a: "\<forall>x \<in> set (map (\<lambda>v. 0x22 # canonical v @ [0x22]) vs). \<forall>u \<in> set x. u < 0x80"
    using assms by (auto dest: canonical_plain plain_ascii_lt)
  have "\<forall>u \<in> set (JSON_stringify (map canonical vs)). u < 0x80"
    using join_comma_ascii [OF a] unfolding JSON_stringify_def q by (auto simp: js_def)
  then have "TextEncoder_encode (JSON_stringify (map canonical vs)) =
      map ucast (JSON_stringify (map canonical vs))"
    by (rule TextEncoder_ascii)
  also have "\<dots> = spec_message vs"
    unfolding JSON_stringify_def q
    by (simp add: spec_message_def ucast_join_comma js_def comp_def)
  finally show ?thesis .
qed

subsection \<open>The effects of the proof steps\<close>

lemma sendJoinProof_no_add:
  "e \<in> set (snd (sendJoinProof w g grp i c)) \<Longrightarrow> \<not> is_add_member_request e"
  by (auto simp: sendJoinProof_def Let_def split: if_splits sum.splits option.splits)

lemma sendModTrainProof_no_add:
  "e \<in> set (snd (sendModTrainProof w g grp i c s d)) \<Longrightarrow> \<not> is_add_member_request e"
  by (auto simp: sendModTrainProof_def Let_def split: if_splits sum.splits option.splits)

lemma main_proofs_frame:
  "\<exists>es. snd (main_proofs w g i c st) = perform es st \<and>
        (\<forall>e \<in> set es. \<not> is_add_member_request e) \<and>
        (\<forall>p. fst (main_proofs w g i c st) \<noteq> Suspended p)"
proof (cases "new_Group w (loadMembers st g)")
  case (Inl e)
  then show ?thesis
    by (intro exI [of _ "[ConsoleLog
            (js (CHR 0x0A # ''10. The members of the group :'' @ [CHR 0x0A, CHR 0x0A]))
            [Members (loadMembers st g)]]"])
       (simp add: main_proofs_def Let_def console_log_def perform_def)
next
  case (Inr grp)
  obtain r1 es1 where j: "sendJoinProof w g grp i c = (r1, es1)"
    by (cases "sendJoinProof w g grp i c")
  have n1: "\<forall>e \<in> set es1. \<not> is_add_member_request e"
    by (metis j snd_conv sendJoinProof_no_add)
  obtain r2 es2 where m:
    "sendModTrainProof w g grp i c (js ''round-1'') [BigIntItem 1, BigIntItem 2, BigIntItem 3] =
       (r2, es2)"
    by (cases "sendModTrainProof w g grp i c (js ''round-1'')
                 [BigIntItem 1, BigIntItem 2, BigIntItem 3]")
  have n2: "\<forall>e \<in> set es2. \<not> is_add_member_request e"
    by (metis m snd_conv sendModTrainProof_no_add)
  show ?thesis
  proof (cases r1)
    case (Inl e)
    with Inr j n1 show ?thesis
      by (intro exI [of _ "[ConsoleLog
              (js (CHR 0x0A # ''10. The members of the group :'' @ [CHR 0x0A, CHR 0x0A]))
              [Members (loadMembers st g)],
            ConsoleLog (js (CHR 0x0A # ''11. Sending proof of membership to the server'')) []]
            @ es1"])
         (simp add: main_proofs_def Let_def console_log_def perform_def)
  next
    case r1: (Inr u)
    with Inr j m n1 n2 show ?thesis
      by (intro exI [of _ "[ConsoleLog
              (js (CHR 0x0A # ''10. The members of the group :'' @ [CHR 0x0A, CHR 0x0A]))
              [Members (loadMembers st g)],
            ConsoleLog (js (CHR 0x0A # ''11. Sending proof of membership to the server'')) []]
            @ es1 @
            [ConsoleLog (js (CHR 0x0A # ''12. Sending proof of model update to the server'')) []]
            @ es2"])
         (cases r2; auto simp: main_proofs_def Let_def console_log_def perform_def)
  qed
qed

subsection \<open>The wait and the bus\<close>

lemma first_wait_flag: "isWaitingForMemberEvent first_wait"
  by (simp add: first_wait_def waitForMemberEvent_def initial_def on_def Let_def)

lemma registered_listeners:
  assumes "\<not> isWaitingForMemberEvent st" and "\<forall>n. listeners st n = []"
  shows "listeners (snd (waitForMemberEvent st g ic)) n =
           (if n \<in> member_event_names then [MemberEventHandler (promises st) g ic] else [])"
  using assms
  by (auto simp: waitForMemberEvent_def on_def Let_def member_event_names_def)

lemma registration:
  assumes "wf_bus st" and "\<not> isWaitingForMemberEvent st"
  shows "fst (waitForMemberEvent st g (Some c)) = Pending (promises st)"
    and "waiting_for (snd (waitForMemberEvent st g (Some c))) (promises st) g c"
proof -
  from assms have e: "\<forall>n. listeners st n = []" and r: "promises st \<notin> resolved st"
    by (auto simp: wf_bus_def)
  show "fst (waitForMemberEvent st g (Some c)) = Pending (promises st)"
    using assms(2) by (simp add: waitForMemberEvent_def Let_def)
  have "resolved (snd (waitForMemberEvent st g (Some c))) = resolved st"
    using assms(2) by (simp add: waitForMemberEvent_def on_def Let_def)
  with r registered_listeners [OF assms(2) e, of g "Some c"]
  show "waiting_for (snd (waitForMemberEvent st g (Some c))) (promises st) g c"
    by (auto simp: waiting_for_def)
qed

lemma waiting_for_emitted: "waiting_for (st\<lparr>emitted := x\<rparr>) p g c = waiting_for st p g c"
  by (simp add: waiting_for_def)

lemma emit_no_match:
  assumes "waiting_for st p g c" and "c \<noteq> 0" and "\<not> matches_key g c (n, a, b)"
  shows "emit n a b st = st\<lparr>emitted := emitted st @ [(n, a, b)]\<rparr>"
  using assms by (auto simp: emit_def waiting_for_def matches_key_def)

lemma emit_match:
  assumes "waiting_for st p g c" and "matches_key g c (n, a, b)"
  shows "p \<in> resolved (emit n a b st)"
  using assms by (auto simp: emit_def waiting_for_def matches_key_def off_def Let_def)

lemma resolved_call_listener: "p \<in> resolved st \<Longrightarrow> p \<in> resolved (call_listener h a b st)"
  by (cases h) (simp add: Let_def off_def)

lemma resolved_fold_listeners:
  "p \<in> resolved st \<Longrightarrow> p \<in> resolved (fold (\<lambda>h s. call_listener h a b s) hs st)"
  by (induction hs arbitrary: st) (simp_all add: resolved_call_listener)

lemma resolved_emit: "p \<in> resolved st \<Longrightarrow> p \<in> resolved (emit n a b st)"
  by (simp add: emit_def resolved_fold_listeners)

lemma resolved_emit_all: "p \<in> resolved st \<Longrightarrow> p \<in> resolved (emit_all evs st)"
  by (induction evs arbitrary: st) (auto simp: resolved_emit)

lemma waiting_emit_all:
  assumes "waiting_for st p g c" and "c \<noteq> 0"
  shows "(p \<in> resolved (emit_all evs st)) = (\<exists>ev \<in> set evs. matches_key g c ev)"
  using assms(1)
proof (induction evs arbitrary: st)
  case Nil
  then show ?case by (simp add: waiting_for_def)
next
  case (Cons ev evs)
  obtain n a b where ev: "ev = (n, a, b)" by (cases ev)
  show ?case
  proof (cases "matches_key g c ev")
    case True
    with Cons.prems ev have "p \<in> resolved (emit n a b st)"
      by (simp add: emit_match)
    then have "p \<in> resolved (emit_all evs (emit n a b st))" by (rule resolved_emit_all)
    with True ev show ?thesis by simp
  next
    case False
    with Cons.prems ev assms(2) have "emit n a b st = st\<lparr>emitted := emitted st @ [(n, a, b)]\<rparr>"
      by (simp add: emit_no_match)
    moreover from Cons.prems have "waiting_for (st\<lparr>emitted := emitted st @ [(n, a, b)]\<rparr>) p g c"
      by (simp add: waiting_for_emitted)
    ultimately show ?thesis
      using Cons.IH False ev by simp
  qed
qed

subsection \<open>The reachable states of the bus\<close>

lemma wf_bus_initial: "wf_bus initial"
  by (simp add: wf_bus_def initial_def)

lemma wf_bus_wait:
  assumes "wf_bus st"
  shows "wf_bus (snd (waitForMemberEvent st g ic))"
proof (cases "isWaitingForMemberEvent st")
  case True
  with assms show ?thesis by (simp add: waitForMemberEvent_def)
next
  case False
  with assms have e: "\<forall>n. listeners st n = []" and r: "\<forall>p \<in> resolved st. p < promises st"
    by (simp_all add: wf_bus_def)
  have l: "listeners (snd (waitForMemberEvent st g ic)) =
      (\<lambda>n. if n \<in> member_event_names then [MemberEventHandler (promises st) g ic] else [])"
    using registered_listeners [OF False e] by (intro ext) simp
  have f: "isWaitingForMemberEvent (snd (waitForMemberEvent st g ic))"
    "promises (snd (waitForMemberEvent st g ic)) = promises st + 1"
    "resolved (snd (waitForMemberEvent st g ic)) = resolved st"
    using False by (simp_all add: waitForMemberEvent_def on_def Let_def)
  show ?thesis
    using r f by (auto simp: wf_bus_def l less_Suc_eq intro: exI [of _ "promises st"])
qed

lemma call_listener_cases:
  "call_listener h a b st = st \<or>
   (\<exists>p g ic. h = MemberEventHandler p g ic \<and>
      call_listener h a b st =
        (off ''MemberUpdatedProcessed'' h (off ''MemberRemovedProcessed'' h
           (off ''MemberAddedProcessed'' h st)))
          \<lparr>isWaitingForMemberEvent := False,
           resolved := insert p (resolved st)\<rparr>)"
  by (cases h) (auto simp: Let_def off_def)

lemma wf_bus_emitted: "wf_bus (st\<lparr>emitted := x\<rparr>) = wf_bus st"
  by (simp add: wf_bus_def)

lemma emit_no_listener:
  "listeners st n = [] \<Longrightarrow> emit n a b st = st\<lparr>emitted := emitted st @ [(n, a, b)]\<rparr>"
  by (simp add: emit_def)

lemma wf_bus_emit:
  assumes "wf_bus st"
  shows "wf_bus (emit n a b st)"
proof (cases "listeners st n = []")
  case True
  with assms show ?thesis by (simp add: emit_no_listener wf_bus_emitted)
next
  case False
  with assms obtain p g ic where
    p: "p < promises st" "p \<notin> resolved st" and
    l: "listeners st = (\<lambda>n. if n \<in> member_event_names then [MemberEventHandler p g ic] else [])"
    by (auto simp: wf_bus_def split: if_splits)
  from False l have n: "n \<in> member_event_names" by (auto split: if_splits)
  let ?h = "MemberEventHandler p g ic"
  let ?st0 = "st\<lparr>emitted := emitted st @ [(n, a, b)]\<rparr>"
  have e: "emit n a b st = call_listener ?h a b ?st0"
    using n by (simp add: emit_def l)
  from call_listener_cases [of ?h a b ?st0] show ?thesis
  proof
    assume "call_listener ?h a b ?st0 = ?st0"
    with assms show ?thesis by (simp add: e wf_bus_emitted)
  next
    assume "\<exists>p' g' ic'. ?h = MemberEventHandler p' g' ic' \<and>
      call_listener ?h a b ?st0 =
        (off ''MemberUpdatedProcessed'' ?h (off ''MemberRemovedProcessed'' ?h
           (off ''MemberAddedProcessed'' ?h ?st0)))
          \<lparr>isWaitingForMemberEvent := False, resolved := insert p' (resolved ?st0)\<rparr>"
    then have c: "call_listener ?h a b ?st0 =
        (off ''MemberUpdatedProcessed'' ?h (off ''MemberRemovedProcessed'' ?h
           (off ''MemberAddedProcessed'' ?h ?st0)))
          \<lparr>isWaitingForMemberEvent := False, resolved := insert p (resolved ?st0)\<rparr>"
      by auto
    have o: "listeners (off ''MemberUpdatedProcessed'' ?h (off ''MemberRemovedProcessed'' ?h
           (off ''MemberAddedProcessed'' ?h ?st0))) = (\<lambda>n. [])"
      by (intro ext) (auto simp: off_def l member_event_names_def)
    have r: "\<forall>q \<in> resolved st. q < promises st"
      using assms by (simp add: wf_bus_def)
    have "promises (call_listener ?h a b ?st0) = promises st"
      "resolved (call_listener ?h a b ?st0) = insert p (resolved st)"
      "\<not> isWaitingForMemberEvent (call_listener ?h a b ?st0)"
      "listeners (call_listener ?h a b ?st0) = (\<lambda>n. [])"
      unfolding c using o by (simp_all add: off_def)
    with p r show ?thesis
      unfolding e wf_bus_def by simp
  qed
qed

lemma wf_bus_effects: "wf_bus (st\<lparr>effects := x\<rparr>) = wf_bus st"
  by (simp add: wf_bus_def)

lemma wf_bus_members: "wf_bus (st\<lparr>members := x\<rparr>) = wf_bus st"
  by (simp add: wf_bus_def)

lemma wf_bus_members_file: "wf_bus (st\<lparr>members_file := x\<rparr>) = wf_bus st"
  by (simp add: wf_bus_def)

lemma wf_bus_saved_group_ids: "wf_bus (st\<lparr>saved_group_ids := x\<rparr>) = wf_bus st"
  by (simp add: wf_bus_def)

lemmas wf_bus_frame = wf_bus_effects wf_bus_members wf_bus_members_file wf_bus_saved_group_ids
  wf_bus_emitted

lemma wf_bus_handlers:
  assumes "wf_bus st"
  shows "wf_bus (on_GroupCreated ev st)" and "wf_bus (on_MemberAdded ev st)"
    and "wf_bus (on_MembersAdded ev st)" and "wf_bus (on_MemberRemoved ev st)"
    and "wf_bus (on_MemberUpdated ev st)"
proof -
  show "wf_bus (on_GroupCreated ev st)"
    using assms
    by (cases ev) (simp_all add: Let_def wf_bus_emit wf_bus_frame saveGroupId_def)
  show "wf_bus (on_MemberAdded ev st)"
    using assms
    by (cases ev)
       (simp_all add: Let_def wf_bus_emit wf_bus_frame console_log_def saveMembers_def)
  show "wf_bus (on_MembersAdded ev st)"
    using assms
    by (cases ev) (simp_all add: Let_def wf_bus_frame console_log_def saveMembers_def)
  show "wf_bus (on_MemberRemoved ev st)"
    using assms
    by (cases ev)
       (simp_all add: Let_def wf_bus_emit wf_bus_frame console_log_def saveMembers_def)
  show "wf_bus (on_MemberUpdated ev st)"
    using assms
    by (cases ev)
       (simp_all add: Let_def wf_bus_emit wf_bus_frame console_log_def saveMembers_def)
qed

lemma wf_bus_perform: "wf_bus (perform es st) = wf_bus st"
  by (simp add: perform_def wf_bus_effects)

lemma wf_bus_console_log: "wf_bus (console_log m as st) = wf_bus st"
  by (simp add: console_log_def wf_bus_effects)

lemma wf_bus_main_proofs: "wf_bus st \<Longrightarrow> wf_bus (snd (main_proofs w g i c st))"
  using main_proofs_frame [of w g i c st] by (auto simp: wf_bus_perform)

lemma wf_bus_main:
  assumes "wf_bus st"
  shows "wf_bus (snd (main w g i c st))"
proof -
  obtain r es where a: "isAlreadyMember w g c = (r, es)"
    by (cases "isAlreadyMember w g c")
  show ?thesis
  proof (cases r)
    case (Inl e)
    with a assms show ?thesis
      by (simp add: main_def Let_def wf_bus_perform wf_bus_console_log)
  next
    case (Inr alreadyMember)
    show ?thesis
    proof (cases alreadyMember)
      case True
      with a Inr assms show ?thesis
        by (simp add: main_def Let_def wf_bus_main_proofs wf_bus_perform wf_bus_console_log)
    next
      case False
      let ?st2 = "console_log (js (CHR 0x0A # ''Waiting for member event processing...'')) []
        (perform (addMember w g c) (perform es
          (console_log
             (js (CHR 0x0A # ''9. Sending a request to join a group to the server'')) [] st)))"
      obtain pr st3 where w: "waitForMemberEvent ?st2 g (Some c) = (pr, st3)"
        by (cases "waitForMemberEvent ?st2 g (Some c)")
      have "wf_bus ?st2"
        using assms by (simp add: wf_bus_perform wf_bus_console_log)
      from wf_bus_wait [OF this, of g "Some c"] w have "wf_bus st3" by simp
      with a Inr False w show ?thesis
        by (cases pr) (simp_all add: main_def Let_def wf_bus_main_proofs)
    qed
  qed
qed

subsection \<open>The mirror\<close>

lemma addMember_adds: "in_mirror (groupStorage_addMember m g x) g x"
  by (simp add: in_mirror_def groupStorage_addMember_def split: option.splits)

lemma addMember_keeps: "in_mirror m g x \<Longrightarrow> in_mirror (groupStorage_addMember m g y) g x"
  by (auto simp: in_mirror_def groupStorage_addMember_def split: option.splits)

lemma fold_addMember_keeps:
  "in_mirror m g x \<Longrightarrow>
   in_mirror (fold (\<lambda>c m. groupStorage_addMember m g (f c)) cs m) g x"
  by (induction cs arbitrary: m) (simp_all add: addMember_keeps)

lemma fold_addMember_adds:
  "c \<in> set cs \<Longrightarrow>
   in_mirror (fold (\<lambda>c m. groupStorage_addMember m g (f c)) cs m) g (f c)"
proof (induction cs arbitrary: m)
  case Nil
  then show ?case by simp
next
  case (Cons a cs)
  show ?case
  proof (cases "c = a")
    case True
    then show ?thesis by (simp add: fold_addMember_keeps addMember_adds)
  next
    case False
    with Cons show ?thesis by simp
  qed
qed

subsection \<open>Logs in block order\<close>

lemma filter_after_head:
  "\<forall>e \<in> set chain. h < blockNumber e \<Longrightarrow>
   filter (\<lambda>e. P e \<and> blockNumber e \<le> h) chain = []"
  by (induction chain) auto

lemma sorted_split:
  "sorted (map blockNumber chain) \<Longrightarrow>
   filter (\<lambda>e. P e \<and> blockNumber e \<le> h) chain @ filter (\<lambda>e. P e \<and> h < blockNumber e) chain =
   filter P chain"
proof (induction chain)
  case Nil
  then show ?case by simp
next
  case (Cons e es)
  show ?case
  proof (cases "blockNumber e \<le> h")
    case True
    with Cons show ?thesis by simp
  next
    case False
    with Cons.prems have later: "\<forall>x \<in> set (e # es). h < blockNumber x" by auto
    from filter_after_head [OF later]
    have "filter (\<lambda>e. P e \<and> blockNumber e \<le> h) (e # es) = []" .
    moreover have "filter (\<lambda>e. P e \<and> h < blockNumber e) (e # es) = filter P (e # es)"
      using later by (intro filter_cong) auto
    ultimately show ?thesis by simp
  qed
qed

lemma fold_decoded:
  "\<forall>e \<in> set xs. decoded e \<Longrightarrow>
   fold (\<lambda>e s. if decoded e then handler (event e) s else s) xs st =
   fold handler (map event xs) st"
  by (induction xs arbitrary: st) simp_all

lemma processEvent_alone:
  assumes "sorted (map blockNumber chain)" and "\<forall>e \<in> set chain. decoded e"
  shows "processEvent chain name handler 0 head head st =
           fold handler (map event (filter (\<lambda>e. event_name (event e) = name) chain)) st"
proof -
  have d: "\<forall>e \<in> set (queryFilter chain name 0 head). decoded e"
    using assms(2) by (simp add: queryFilter_def)
  have "processEvent chain name handler 0 head head st =
      fold handler (map event (queryFilter chain name 0 head) @ subscription chain name head) st"
    by (simp add: processEvent_def backfill_def fold_decoded [OF d])
  also have "map event (queryFilter chain name 0 head) @ subscription chain name head =
      map event (filter (\<lambda>e. event_name (event e) = name) chain)"
    using sorted_split [OF assms(1), of "\<lambda>e. event_name (event e) = name" head]
    by (simp add: queryFilter_def subscription_def flip: map_append)
  finally show ?thesis .
qed

subsection \<open>The calls of the bridge\<close>



























section \<open>The wait for a member event\<close>

text \<open>
  Claim C1, as the code has it. The specification asks that a wait requested while
  another one is pending either joins the pending promise or is rejected, and never
  resolves without its event. The guard on \<open>isWaitingForMemberEvent\<close> does neither: while a
  wait is pending, every further call returns a promise that is already resolved,
  registers no handler and leaves the state, the pending wait included, as it was.
\<close>

theorem second_wait_resolves_at_once:
  assumes "isWaitingForMemberEvent st"
  shows "waitForMemberEvent st groupId identityCommitment = (Resolved, st)"
  using assms by (simp add: waitForMemberEvent_def)

theorem second_wait_resolves_at_once_witness:
  "isWaitingForMemberEvent first_wait \<and>
   waitForMemberEvent first_wait (js ''8'') (Some 456) = (Resolved, first_wait)"
  using second_wait_resolves_at_once [of first_wait "js ''8''" "Some 456"] first_wait_flag
  by simp

text \<open>
  Claim C1 fails on the code: a wait for group 7 and commitment 123 is pending (promise 0
  is not resolved and nothing was emitted); a second wait, for group 8 and commitment
  456, gets a resolved promise at once, although still nothing was emitted. The promise
  is not the pending one, and the request was not rejected.
\<close>

theorem second_wait_without_event:
  "fst (waitForMemberEvent initial (js ''7'') (Some 123)) = Pending 0 \<and>
   \<not> settled first_wait (Pending 0) \<and>
   emitted first_wait = [] \<and>
   fst (waitForMemberEvent first_wait (js ''8'') (Some 456)) = Resolved \<and>
   settled (snd (waitForMemberEvent first_wait (js ''8'') (Some 456))) Resolved \<and>
   emitted (snd (waitForMemberEvent first_wait (js ''8'') (Some 456))) = []"
  by (simp add: first_wait_def waitForMemberEvent_def initial_def on_def Let_def)

text \<open>
  Claim C4, as the code has it. A wait for group \<open>g\<close> and a non-zero commitment \<open>c\<close>,
  registered in a reachable state in which no other wait is pending, returns a pending
  promise, and after any sequence of events emitted on the bus the promise is resolved
  exactly when one of them has the name \<open>MemberAddedProcessed\<close>, \<open>MemberRemovedProcessed\<close> or
  \<open>MemberUpdatedProcessed\<close>, the group \<open>g\<close> and, as its commitment, the decimal string of
  \<open>c\<close>. Events with another group, another commitment or another name leave it pending.
\<close>

theorem wait_resolves_on_matching_event:
  assumes "wf_bus st" and "\<not> isWaitingForMemberEvent st" and "c \<noteq> 0"
  shows "fst (waitForMemberEvent st g (Some c)) = Pending (promises st) \<and>
         settled (emit_all evs (snd (waitForMemberEvent st g (Some c)))) (Pending (promises st)) =
           (\<exists>ev \<in> set evs. matches_key g c ev)"
  using registration [OF assms(1,2), of g c] waiting_emit_all [OF _ assms(3), of _ _ g evs]
  by simp

theorem wait_resolves_on_matching_event_witness:
  "wf_bus initial \<and> \<not> isWaitingForMemberEvent initial \<and> (123::int) \<noteq> 0 \<and>
   \<not> settled (emit_all [] first_wait) (Pending 0) \<and>
   \<not> settled
       (emit_all
          [(''GroupCreated'', js ''7'', None),
           (''MemberAddedProcessed'', js ''8'', Some (js ''123'')),
           (''MemberUpdatedProcessed'', js ''7'', Some (js ''124''))] first_wait)
       (Pending 0) \<and>
   settled
     (emit_all
        [(''MemberAddedProcessed'', js ''8'', Some (js ''123'')),
         (''MemberAddedProcessed'', js ''7'', Some (js ''123''))] first_wait)
     (Pending 0)"
  using wf_bus_initial
    wait_resolves_on_matching_event [OF wf_bus_initial, of 123 "js ''7''" "[]"]
    wait_resolves_on_matching_event [OF wf_bus_initial, of 123 "js ''7''"
      "[(''GroupCreated'', js ''7'', None),
        (''MemberAddedProcessed'', js ''8'', Some (js ''123'')),
        (''MemberUpdatedProcessed'', js ''7'', Some (js ''124''))]"]
    wait_resolves_on_matching_event [OF wf_bus_initial, of 123 "js ''7''"
      "[(''MemberAddedProcessed'', js ''8'', Some (js ''123'')),
        (''MemberAddedProcessed'', js ''7'', Some (js ''123''))]"]
  by (simp add: first_wait_def initial_def matches_key_def member_event_names_def
        bigint_toString_def nat_toString.simps digit_def js_def)

text \<open>
  Claim C4 fails on the code: the claim lets only \<open>MemberAddedProcessed\<close> and
  \<open>MemberUpdatedProcessed\<close> resolve the wait, but the handler is registered for
  \<open>MemberRemovedProcessed\<close> as well. The wait for group 7 and commitment 123 is pending;
  the bridge processes the removal of 123 from group 7, emits \<open>MemberRemovedProcessed\<close>,
  and the wait is resolved.
\<close>

theorem wait_resolves_on_removal:
  "fst (waitForMemberEvent initial (js ''7'') (Some 123)) = Pending 0 \<and>
   \<not> settled first_wait (Pending 0) \<and>
   emitted (on_MemberRemoved (MemberRemovedEvent 7 0 123) first_wait) =
     [(''MemberRemovedProcessed'', js ''7'', Some (js ''123''))] \<and>
   settled (on_MemberRemoved (MemberRemovedEvent 7 0 123) first_wait) (Pending 0)"
  by (simp add: first_wait_def waitForMemberEvent_def initial_def on_def off_def Let_def
        console_log_def saveMembers_def emit_def groupStorage_removeMember_def
        bigint_toString_def nat_toString.simps digit_def js_def)

text \<open>
  Claim C10. The handler of a \<open>MembersAdded\<close> batch adds every commitment of the batch to
  the mirror and saves the mirror, and it emits nothing: the record of emitted events,
  the listeners, the wait flag and the resolved promises are as before, so no promise,
  pending or not, changes its state.
\<close>

theorem batch_adds_without_event:
  "(\<forall>c \<in> set cs.
      in_mirror (members (on_MembersAdded (MembersAddedEvent g i cs) st))
        (bigint_toString g) (bigint_toString c)) \<and>
   members_file (on_MembersAdded (MembersAddedEvent g i cs) st) =
     members (on_MembersAdded (MembersAddedEvent g i cs) st) \<and>
   emitted (on_MembersAdded (MembersAddedEvent g i cs) st) = emitted st \<and>
   listeners (on_MembersAdded (MembersAddedEvent g i cs) st) = listeners st \<and>
   isWaitingForMemberEvent (on_MembersAdded (MembersAddedEvent g i cs) st) =
     isWaitingForMemberEvent st \<and>
   resolved (on_MembersAdded (MembersAddedEvent g i cs) st) = resolved st \<and>
   settled (on_MembersAdded (MembersAddedEvent g i cs) st) p = settled st p"
  by (cases p) (simp_all add: Let_def console_log_def saveMembers_def fold_addMember_adds)

theorem batch_adds_without_event_witness:
  "in_mirror (members (on_MembersAdded (MembersAddedEvent 7 0 [123, 456]) first_wait))
     (js ''7'') (js ''123'') \<and>
   in_mirror (members (on_MembersAdded (MembersAddedEvent 7 0 [123, 456]) first_wait))
     (js ''7'') (js ''456'') \<and>
   emitted (on_MembersAdded (MembersAddedEvent 7 0 [123, 456]) first_wait) = [] \<and>
   \<not> settled (on_MembersAdded (MembersAddedEvent 7 0 [123, 456]) first_wait) (Pending 0)"
  using batch_adds_without_event [of "[123, 456]" 7 0 first_wait "Pending 0"]
  by (simp add: first_wait_def waitForMemberEvent_def initial_def on_def Let_def
        bigint_toString_def nat_toString.simps digit_def js_def)

section \<open>Proof construction\<close>

text \<open>
  Claim C7. When the caller's commitment is not in the group, the join proof and the
  model-update proof both fail with the commitment-not-found error, and neither has
  done anything by then: no call of the proof generator and no request. In the
  coordinator the error of the join proof ends the run of \<open>main\<close> at that step, after
  the two console lines that precede it.
\<close>

theorem commitment_not_found:
  assumes "c \<notin> set grp"
  shows "sendJoinProof w gid grp ident c =
           (Inl (Error (CHR 0x0A # ''Commitment not found in the group'')), []) \<and>
         sendModTrainProof w gid grp ident c scope deltaw =
           (Inl (Error ''Commitment not found in the group''), []) \<and>
         (new_Group w (members_file st gid) = Inr grp \<longrightarrow>
            main_proofs w gid ident c st =
              (Failed (Error (CHR 0x0A # ''Commitment not found in the group'')),
               perform
                 [ConsoleLog
                    (js (CHR 0x0A # ''10. The members of the group :'' @ [CHR 0x0A, CHR 0x0A]))
                    [Members (members_file st gid)],
                  ConsoleLog (js (CHR 0x0A # ''11. Sending proof of membership to the server''))
                    []] st))"
proof -
  have j: "sendJoinProof w gid grp ident c =
      (Inl (Error (CHR 0x0A # ''Commitment not found in the group'')), [])"
    using assms by (simp add: sendJoinProof_def indexOf_absent)
  have m: "sendModTrainProof w gid grp ident c scope deltaw =
      (Inl (Error ''Commitment not found in the group''), [])"
    using assms by (simp add: sendModTrainProof_def indexOf_absent)
  have "new_Group w (members_file st gid) = Inr grp \<longrightarrow>
      main_proofs w gid ident c st =
        (Failed (Error (CHR 0x0A # ''Commitment not found in the group'')),
         perform
           [ConsoleLog
              (js (CHR 0x0A # ''10. The members of the group :'' @ [CHR 0x0A, CHR 0x0A]))
              [Members (members_file st gid)],
            ConsoleLog (js (CHR 0x0A # ''11. Sending proof of membership to the server''))
              []] st)"
    by (simp add: main_proofs_def Let_def j console_log_def perform_def loadMembers_def)
  with j m show ?thesis by blast
qed

theorem commitment_not_found_witness:
  "(5::int) \<notin> set [123] \<and>
   sendJoinProof example_world (js ''7'') [123] (Identity 1) 5 =
     (Inl (Error (CHR 0x0A # ''Commitment not found in the group'')), []) \<and>
   sendModTrainProof example_world (js ''7'') [123] (Identity 1) 5 (js ''round-1'')
       [BigIntItem 1] =
     (Inl (Error ''Commitment not found in the group''), []) \<and>
   new_Group example_world (members_file initial (js ''7'')) = Inr [123] \<and>
   fst (main_proofs example_world (js ''7'') (Identity 1) 5 initial) =
     Failed (Error (CHR 0x0A # ''Commitment not found in the group''))"
  using commitment_not_found [of 5 "[123]" example_world "js ''7''" "Identity 1" "js ''round-1''"
      "[BigIntItem 1]" initial]
  by (simp add: example_world_def)

text \<open>
  Claim C8, as the code has it. For a commitment of the group, the join proof is
  generated for the message \<open>join-\<close> followed by the first 8 characters of the commitment's
  decimal string, which is the whole string when it has fewer than 8 characters, and
  for the scope \<open>join-\<close> followed by the group identifier; the request carries the same
  scope.
\<close>

theorem join_message_and_scope:
  assumes "c \<in> set grp"
  shows "hd (snd (sendJoinProof w gid grp ident c)) =
           GenerateProof ident (generateMerkleProof grp (indexOf grp c))
             (TextMessage (js ''join-'' @ take 8 (bigint_toString c))) (js ''join-'' @ gid) \<and>
         (\<forall>url cs p n s.
            HttpPost url (JoinProofBody cs p n s) \<in> set (snd (sendJoinProof w gid grp ident c))
              \<longrightarrow> s = js ''join-'' @ gid) \<and>
         length (take 8 (bigint_toString c)) = min 8 (length (bigint_toString c))"
  using assms
  by (auto simp: sendJoinProof_def indexOf_absent Let_def split: sum.splits option.splits)

theorem join_message_and_scope_witness:
  "(1234567890123::int) \<in> set [5, 1234567890123] \<and>
   hd (snd (sendJoinProof example_world (js ''7'') [5, 1234567890123] (Identity 1)
              1234567890123)) =
     GenerateProof (Identity 1) (MerkleProof [5, 1234567890123] 1)
       (TextMessage (js ''join-12345678'')) (js ''join-7'')"
  using join_message_and_scope [of 1234567890123 "[5, 1234567890123]" example_world "js ''7''"
      "Identity 1"]
  by (simp add: generateMerkleProof_def bigint_toString_def nat_toString.simps digit_def js_def)

text \<open>
  Claim C8 fails on the code where the claim asks for a prefix of 8 characters: for the
  commitment 123 the message is \<open>join-123\<close>, with 3 characters after the fixed prefix.
\<close>

theorem join_message_short_commitment:
  "hd (snd (sendJoinProof example_world (js ''7'') [123] (Identity 1) 123)) =
     GenerateProof (Identity 1) (MerkleProof [123] 0) (TextMessage (js ''join-'' @ js ''123''))
       (js ''join-7'') \<and>
   bigint_toString 123 = js ''123'' \<and>
   length (js ''123'') \<noteq> 8"
  by (simp add: sendJoinProof_def Let_def example_world_def generateMerkleProof_def
        bigint_toString_def nat_toString.simps digit_def js_def)

text \<open>
  Claim C2, as the code has it. A model-update sequence with a number that is not a safe
  integer, or with a value of an unsupported type, makes the call fail before the proof
  generator is called and before any request is sent. The error is the unsupported-value
  error when the commitment is in the group; when it is not, the membership check, which
  comes first, fails with the commitment-not-found error.
\<close>

theorem unsupported_value_rejected:
  assumes "\<exists>v \<in> set deltaw. unsupported_value v"
  shows "\<exists>e. sendModTrainProof w gid grp ident c scope deltaw = (Inl e, []) \<and>
             (if c \<in> set grp then is_UnsupportedValueError e
              else e = Error ''Commitment not found in the group'')"
proof (cases "c \<in> set grp")
  case True
  from Array_map_unsupported [OF assms] obtain e where
    "Array_map item_toString deltaw = Inl e" "is_UnsupportedValueError e" by blast
  with True show ?thesis
    by (simp add: sendModTrainProof_def indexOf_absent)
next
  case False
  then show ?thesis
    by (simp add: sendModTrainProof_def indexOf_absent)
qed

theorem unsupported_value_rejected_witness:
  "unsupported_value (NumberItem (Integral 9007199254740992)) \<and>
   sendModTrainProof example_world (js ''7'') [123] (Identity 1) 123 (js ''round-1'')
       [BigIntItem 1, StringItem (js ''2''), NumberItem (Integral 9007199254740992)] =
     (Inl (Error ''Unsafe number in deltaw''), [])"
  using unsupported_value_rejected
      [of "[BigIntItem 1, StringItem (js ''2''), NumberItem (Integral 9007199254740992)]"
        example_world "js ''7''" "[123]" "Identity 1" 123 "js ''round-1''"]
  by (simp add: sendModTrainProof_def MAX_SAFE_INTEGER_def)

text \<open>
  Claim C2 fails on the code where it names the error: with the unsafe number
  9007199254740992 in the sequence and a commitment that is not in the group, the call
  fails with the commitment-not-found error, which is not the unsupported-value error.
\<close>

theorem unsupported_value_absent_commitment:
  "unsupported_value (NumberItem (Integral 9007199254740992)) \<and>
   sendModTrainProof example_world (js ''7'') [] (Identity 1) 123 (js ''round-1'')
       [BigIntItem 1, StringItem (js ''2''), NumberItem (Integral 9007199254740992)] =
     (Inl (Error ''Commitment not found in the group''), []) \<and>
   \<not> is_UnsupportedValueError (Error ''Commitment not found in the group'')"
  by (simp add: sendModTrainProof_def MAX_SAFE_INTEGER_def is_UnsupportedValueError_def)

text \<open>
  Claim C6. When every model-update value is supported, the message for which the proof
  is generated, and which the request carries, is the byte sequence of the
  specification: the JSON array of the canonical decimal strings, in the order of the
  input. The rest of the call is as the code has it: the membership check first, then
  one call of the proof generator and, if it succeeds, one request and its report.
\<close>

theorem modtrain_message:
  assumes "\<forall>v \<in> set deltaw. supported v"
  shows "sendModTrainProof w gid grp ident c scope deltaw =
           (if c \<in> set grp then
              let message = spec_message deltaw;
                  witness = generateMerkleProof grp (indexOf grp c);
                  call = GenerateProof ident witness (BytesMessage message) scope
              in case generateProof w ident witness (BytesMessage message) scope of
                   Inl e \<Rightarrow> (Inl e, [call])
                 | Inr fullProof \<Rightarrow>
                     let url = SERVER_URL w @ js ''/group/'' @ gid @ js ''/modtrain-proof'';
                         body = ModTrainProofBody fullProof (nullifier fullProof) message scope
                     in (Inr (),
                         [call, HttpPost url body,
                          (case post w url body of
                             None \<Rightarrow>
                               ConsoleLog
                                 (js (CHR 0x0A # ''Model Update Proof sent and accepted'')) []
                           | Some err \<Rightarrow>
                               ConsoleError (js ''Error while sending Model Update Proof :'')
                                 [Detail (error_detail err)])])
            else (Inl (Error ''Commitment not found in the group''), []))"
  using assms
  by (simp add: sendModTrainProof_def indexOf_absent Array_map_supported message_bytes)

theorem modtrain_message_witness:
  "supported (BigIntItem 1) \<and> supported (StringItem (js ''2'')) \<and>
   supported (NumberItem (Integral (- 30))) \<and>
   sendModTrainProof example_world (js ''7'') [123] (Identity 1) 123 (js ''round-1'')
       [BigIntItem 1, StringItem (js ''2''), NumberItem (Integral (- 30))] =
     (Inr (),
      [GenerateProof (Identity 1) (MerkleProof [123] 0)
         (BytesMessage (map ucast (js ''[\"1\",\"2\",\"-30\"]''))) (js ''round-1''),
       HttpPost (js ''http://localhost:3333/group/7/modtrain-proof'')
         (ModTrainProofBody \<lparr>nullifier = 1, points = []\<rparr> 1
            (map ucast (js ''[\"1\",\"2\",\"-30\"]'')) (js ''round-1'')),
       ConsoleLog (js (CHR 0x0A # ''Model Update Proof sent and accepted'')) []])"
  using modtrain_message
      [of "[BigIntItem 1, StringItem (js ''2''), NumberItem (Integral (- 30))]"
        example_world "js ''7''" "[123]" "Identity 1" 123 "js ''round-1''"]
  by (simp add: Let_def spec_message_def example_world_def generateMerkleProof_def
        numeric_string_def is_digit_def MAX_SAFE_INTEGER_def bigint_toString_def
        nat_toString.simps digit_def js_def)

section \<open>Backfill and live subscription\<close>




section \<open>The coordinator\<close>

text \<open>
  Claim C5. When \<open>hasMember\<close> answers true, \<open>main\<close> goes from the membership check straight
  to the proof steps: it sends no add-member request, it registers no wait (the
  listeners, the wait flag and the promise counter are untouched) and it is never
  suspended on a promise.
\<close>

theorem member_short_circuit:
  assumes "hasMember w g c = Inr True"
  shows "main w g i c st =
           main_proofs w g i c
             (perform
                [ConsoleLog
                   (js (CHR 0x0A # ''9. Sending a request to join a group to the server'')) [],
                 ConsoleLog (js (CHR 0x0A # ''Already a member.'')) []] st) \<and>
         (\<exists>es. snd (main w g i c st) = perform es st \<and>
               (\<forall>e \<in> set es. \<not> is_add_member_request e)) \<and>
         (\<forall>p. fst (main w g i c st) \<noteq> Suspended p) \<and>
         listeners (snd (main w g i c st)) = listeners st \<and>
         isWaitingForMemberEvent (snd (main w g i c st)) = isWaitingForMemberEvent st \<and>
         promises (snd (main w g i c st)) = promises st"
proof -
  let ?logs = "[ConsoleLog
                  (js (CHR 0x0A # ''9. Sending a request to join a group to the server'')) [],
                ConsoleLog (js (CHR 0x0A # ''Already a member.'')) []]"
  let ?st1 = "perform ?logs st"
  have eq: "main w g i c st = main_proofs w g i c ?st1"
    using assms by (simp add: main_def isAlreadyMember_def Let_def console_log_def perform_def)
  from main_proofs_frame [of w g i c ?st1] obtain es where
    es: "snd (main_proofs w g i c ?st1) = perform es ?st1"
        "\<forall>e \<in> set es. \<not> is_add_member_request e"
        "\<forall>p. fst (main_proofs w g i c ?st1) \<noteq> Suspended p" by blast
  have "snd (main w g i c st) = perform (?logs @ es) st"
    unfolding eq es(1) by (simp add: perform_def)
  moreover have "\<forall>e \<in> set (?logs @ es). \<not> is_add_member_request e"
    using es(2) by simp
  ultimately have "\<exists>es. snd (main w g i c st) = perform es st \<and>
      (\<forall>e \<in> set es. \<not> is_add_member_request e)" by blast
  moreover have "\<forall>p. fst (main w g i c st) \<noteq> Suspended p"
    using es(3) by (simp add: eq)
  moreover have "listeners (snd (main w g i c st)) = listeners st"
    "isWaitingForMemberEvent (snd (main w g i c st)) = isWaitingForMemberEvent st"
    "promises (snd (main w g i c st)) = promises st"
    unfolding eq es(1) by (simp_all add: perform_def)
  ultimately show ?thesis using eq by blast
qed

theorem member_short_circuit_witness:
  "hasMember example_world (js ''7'') 123 = Inr True \<and>
   main example_world (js ''7'') (Identity 1) 123 initial =
     main_proofs example_world (js ''7'') (Identity 1) 123
       (perform
          [ConsoleLog (js (CHR 0x0A # ''9. Sending a request to join a group to the server'')) [],
           ConsoleLog (js (CHR 0x0A # ''Already a member.'')) []] initial) \<and>
   fst (main example_world (js ''7'') (Identity 1) 123 initial) = Completed \<and>
   listeners (snd (main example_world (js ''7'') (Identity 1) 123 initial)) = (\<lambda>n. []) \<and>
   \<not> isWaitingForMemberEvent (snd (main example_world (js ''7'') (Identity 1) 123 initial))"
  using member_short_circuit [of example_world "js ''7''" 123 "Identity 1" initial]
  by (simp add: example_world_def initial_def main_proofs_def sendJoinProof_def
        sendModTrainProof_def Let_def console_log_def perform_def loadMembers_def)

text \<open>
  Claim C9. Whatever the verifier answers to a request, the request is sent once, its
  outcome is written to the console (with \<open>console.error\<close> if it failed) and the sequence
  goes on. After the add-member request \<open>main\<close> goes on to the wait for the member event.
  In the proof steps, when the commitment is in the group and the proof generator
  succeeds, \<open>main\<close> completes after exactly these effects, in this order: the join proof
  and its one request, the report of it, the model-update proof and its one request,
  the report of it. So a failed join-proof submission does not keep the model-update
  proof from being submitted.
\<close>

theorem submission_failure_is_logged_and_passed:
  "(hasMember w g c = Inr False \<longrightarrow>
      main w g i c st =
        (let url = SERVER_URL w @ js ''/add-member'';
             body = AddMemberBody g (bigint_toString c);
             report = (case post w url body of
                         None \<Rightarrow> ConsoleLog (js (CHR 0x0A # ''Membre added to the group.'')) []
                       | Some err \<Rightarrow>
                           ConsoleError (js (CHR 0x0A # ''Error adding member :''))
                             [HttpError err]);
             st2 = perform
                     [ConsoleLog
                        (js (CHR 0x0A # ''9. Sending a request to join a group to the server''))
                        [],
                      HttpPost url body, report,
                      ConsoleLog (js (CHR 0x0A # ''Waiting for member event processing...'')) []]
                     st
         in case waitForMemberEvent st2 g (Some c) of
              (Resolved, st3) \<Rightarrow> main_proofs w g i c st3
            | (Pending p, st3) \<Rightarrow> (Suspended p, st3))) \<and>
   (new_Group w (members_file st g) = Inr grp \<and> c \<in> set grp \<and>
    generateProof w i (generateMerkleProof grp (indexOf grp c))
      (TextMessage (js ''join-'' @ take 8 (bigint_toString c))) (js ''join-'' @ g) = Inr p1 \<and>
    generateProof w i (generateMerkleProof grp (indexOf grp c))
      (BytesMessage (TextEncoder_encode (JSON_stringify (map bigint_toString [1, 2, 3]))))
      (js ''round-1'') = Inr p2 \<longrightarrow>
      main_proofs w g i c st =
        (let witness = generateMerkleProof grp (indexOf grp c);
             message1 = TextMessage (js ''join-'' @ take 8 (bigint_toString c));
             url1 = SERVER_URL w @ js ''/group/'' @ g @ js ''/join-proof'';
             body1 = JoinProofBody (bigint_toString c) p1 (nullifier p1) (js ''join-'' @ g);
             report1 = (case post w url1 body1 of
                          None \<Rightarrow> ConsoleLog (js (CHR 0x0A # ''Join Proof sent and accepted'')) []
                        | Some err \<Rightarrow>
                            ConsoleError (js (CHR 0x0A # ''Error while sending Join Proof :''))
                              [Detail (error_detail err)]);
             message2 = TextEncoder_encode (JSON_stringify (map bigint_toString [1, 2, 3]));
             url2 = SERVER_URL w @ js ''/group/'' @ g @ js ''/modtrain-proof'';
             body2 = ModTrainProofBody p2 (nullifier p2) message2 (js ''round-1'');
             report2 = (case post w url2 body2 of
                          None \<Rightarrow>
                            ConsoleLog (js (CHR 0x0A # ''Model Update Proof sent and accepted''))
                              []
                        | Some err \<Rightarrow>
                            ConsoleError (js ''Error while sending Model Update Proof :'')
                              [Detail (error_detail err)])
         in (Completed,
             perform
               [ConsoleLog
                  (js (CHR 0x0A # ''10. The members of the group :'' @ [CHR 0x0A, CHR 0x0A]))
                  [Members (members_file st g)],
                ConsoleLog (js (CHR 0x0A # ''11. Sending proof of membership to the server'')) [],
                GenerateProof i witness message1 (js ''join-'' @ g),
                HttpPost url1 body1, report1,
                ConsoleLog (js (CHR 0x0A # ''12. Sending proof of model update to the server''))
                  [],
                GenerateProof i witness (BytesMessage message2) (js ''round-1''),
                HttpPost url2 body2, report2] st)))"
  (is "(?notMember \<longrightarrow> ?afterAdd) \<and> (?proofsGo \<longrightarrow> ?afterProofs)")
proof (intro conjI impI)
  assume ?notMember
  then show ?afterAdd
    by (simp add: main_def isAlreadyMember_def addMember_def Let_def console_log_def perform_def)
next
  assume a: ?proofsGo
  then have j: "sendJoinProof w g grp i c =
      (Inr (),
       [GenerateProof i (generateMerkleProof grp (indexOf grp c))
          (TextMessage (js ''join-'' @ take 8 (bigint_toString c))) (js ''join-'' @ g),
        HttpPost (SERVER_URL w @ js ''/group/'' @ g @ js ''/join-proof'')
          (JoinProofBody (bigint_toString c) p1 (nullifier p1) (js ''join-'' @ g)),
        (case post w (SERVER_URL w @ js ''/group/'' @ g @ js ''/join-proof'')
                (JoinProofBody (bigint_toString c) p1 (nullifier p1) (js ''join-'' @ g)) of
           None \<Rightarrow> ConsoleLog (js (CHR 0x0A # ''Join Proof sent and accepted'')) []
         | Some err \<Rightarrow>
             ConsoleError (js (CHR 0x0A # ''Error while sending Join Proof :''))
               [Detail (error_detail err)])])"
    by (simp add: sendJoinProof_def indexOf_absent Let_def)
  from a have m: "sendModTrainProof w g grp i c (js ''round-1'')
        [BigIntItem 1, BigIntItem 2, BigIntItem 3] =
      (Inr (),
       [GenerateProof i (generateMerkleProof grp (indexOf grp c))
          (BytesMessage (TextEncoder_encode (JSON_stringify (map bigint_toString [1, 2, 3]))))
          (js ''round-1''),
        HttpPost (SERVER_URL w @ js ''/group/'' @ g @ js ''/modtrain-proof'')
          (ModTrainProofBody p2 (nullifier p2)
             (TextEncoder_encode (JSON_stringify (map bigint_toString [1, 2, 3])))
             (js ''round-1'')),
        (case post w (SERVER_URL w @ js ''/group/'' @ g @ js ''/modtrain-proof'')
                (ModTrainProofBody p2 (nullifier p2)
                   (TextEncoder_encode (JSON_stringify (map bigint_toString [1, 2, 3])))
                   (js ''round-1'')) of
           None \<Rightarrow> ConsoleLog (js (CHR 0x0A # ''Model Update Proof sent and accepted'')) []
         | Some err \<Rightarrow>
             ConsoleError (js ''Error while sending Model Update Proof :'')
               [Detail (error_detail err)])])"
    by (simp add: sendModTrainProof_def indexOf_absent Let_def)
  show ?afterProofs
    by (simp add: main_proofs_def Let_def a j m console_log_def perform_def loadMembers_def)
qed

theorem submission_failure_is_logged_and_passed_witness:
  "hasMember failing_world (js ''7'') 123 = Inr False \<and>
   fst (main failing_world (js ''7'') (Identity 1) 123 initial) = Suspended 0 \<and>
   effects (snd (main failing_world (js ''7'') (Identity 1) 123 initial)) =
     [ConsoleLog (js (CHR 0x0A # ''9. Sending a request to join a group to the server'')) [],
      HttpPost (js ''http://localhost:3333/add-member'') (AddMemberBody (js ''7'') (js ''123'')),
      ConsoleError (js (CHR 0x0A # ''Error adding member :''))
        [HttpError \<lparr>response_data = None, err_message = js ''Network Error''\<rparr>],
      ConsoleLog (js (CHR 0x0A # ''Waiting for member event processing...'')) []] \<and>
   new_Group failing_world (members_file initial (js ''7'')) = Inr [123] \<and>
   (123::int) \<in> set [123] \<and>
   fst (main_proofs failing_world (js ''7'') (Identity 1) 123 initial) = Completed \<and>
   effects (snd (main_proofs failing_world (js ''7'') (Identity 1) 123 initial)) =
     [ConsoleLog (js (CHR 0x0A # ''10. The members of the group :'' @ [CHR 0x0A, CHR 0x0A]))
        [Members None],
      ConsoleLog (js (CHR 0x0A # ''11. Sending proof of membership to the server'')) [],
      GenerateProof (Identity 1) (MerkleProof [123] 0) (TextMessage (js ''join-123''))
        (js ''join-7''),
      HttpPost (js ''http://localhost:3333/group/7/join-proof'')
        (JoinProofBody (js ''123'') \<lparr>nullifier = 1, points = []\<rparr> 1 (js ''join-7'')),
      ConsoleError (js (CHR 0x0A # ''Error while sending Join Proof :''))
        [Detail (js ''Network Error'')],
      ConsoleLog (js (CHR 0x0A # ''12. Sending proof of model update to the server'')) [],
      GenerateProof (Identity 1) (MerkleProof [123] 0)
        (BytesMessage (TextEncoder_encode (JSON_stringify (map bigint_toString [1, 2, 3]))))
        (js ''round-1''),
      HttpPost (js ''http://localhost:3333/group/7/modtrain-proof'')
        (ModTrainProofBody \<lparr>nullifier = 1, points = []\<rparr> 1
           (TextEncoder_encode (JSON_stringify (map bigint_toString [1, 2, 3])))
           (js ''round-1'')),
      ConsoleError (js ''Error while sending Model Update Proof :'')
        [Detail (js ''Network Error'')]]"
  using submission_failure_is_logged_and_passed
      [of failing_world "js ''7''" 123 "Identity 1" initial "[123]"
        "\<lparr>nullifier = 1, points = []\<rparr>" "\<lparr>nullifier = 1, points = []\<rparr>"]
  by (simp add: failing_world_def example_world_def initial_def waitForMemberEvent_def on_def
        Let_def perform_def generateMerkleProof_def error_detail_def
        bigint_toString_def nat_toString.simps digit_def js_def)

end
